theory Spec2Isabelle
  imports Main
begin

section \<open>JavaScript values and the operations the server applies to them\<close>

text \<open>
  The server (src/index.ts) reads the backend's reply with \<^verbatim>\<open>res.json()\<close> and casts it to
  \<^verbatim>\<open>ApiSuccess<T> | ApiError\<close> without any check, so what the handlers compute on is an
  arbitrary JSON value. \<open>json\<close> is that value at run time; \<open>JUndefined\<close> is what reading a
  missing property gives. A number is an integer literal (fractions are left out); it is
  zero or not as the literal is. Objects are the key/value pairs \<^verbatim>\<open>JSON.parse\<close> built,
  looked up by key; the handlers read them by the property names of the source only, none
  of which is a member of \<^verbatim>\<open>Object.prototype\<close>. Strings are lists of bytes.
\<close>

datatype json =
    JUndefined
  | JNull
  | JBool bool
  | JNum int
  | JStr string
  | JArr "json list"
  | JObj "(string \<times> json) list"

text \<open>
  What a handler can throw: \<^verbatim>\<open>new Error(msg)\<close> of the source, the \<^verbatim>\<open>TypeError\<close> the language
  raises on a property read of \<^verbatim>\<open>null\<close>/\<^verbatim>\<open>undefined\<close> or on a call of something that is not a
  function, and a rejection of \<^verbatim>\<open>fetch\<close> or \<^verbatim>\<open>res.json()\<close>.
\<close>

datatype js_error =
    Error string
  | TypeError
  | Rejected string

text \<open>Falsy values: \<^verbatim>\<open>undefined\<close>, \<^verbatim>\<open>null\<close>, \<^verbatim>\<open>false\<close>, \<^verbatim>\<open>0\<close> and the empty string.\<close>

fun truthy :: "json \<Rightarrow> bool" where
  "truthy JUndefined = False"
| "truthy JNull = False"
| "truthy (JBool b) = b"
| "truthy (JNum n) = (n \<noteq> 0)"
| "truthy (JStr s) = (s \<noteq> [])"
| "truthy (JArr xs) = True"
| "truthy (JObj kvs) = True"

fun nullish :: "json \<Rightarrow> bool" where
  "nullish JUndefined = True"
| "nullish JNull = True"
| "nullish v = False"

text \<open>
  A property read \<^verbatim>\<open>v.k\<close>: a \<^verbatim>\<open>TypeError\<close> on \<^verbatim>\<open>null\<close> and \<^verbatim>\<open>undefined\<close>, the stored value
  (or \<^verbatim>\<open>undefined\<close>) on an object, \<^verbatim>\<open>length\<close> on an array and a string, \<^verbatim>\<open>undefined\<close>
  otherwise. The handlers use the length of a string only to test it against zero.
\<close>

fun get_prop :: "json \<Rightarrow> string \<Rightarrow> js_error + json" where
  "get_prop JUndefined k = Inl TypeError"
| "get_prop JNull k = Inl TypeError"
| "get_prop (JObj kvs) k = Inr (case map_of kvs k of None \<Rightarrow> JUndefined | Some v \<Rightarrow> v)"
| "get_prop (JArr xs) k = Inr (if k = ''length'' then JNum (int (length xs)) else JUndefined)"
| "get_prop (JStr s) k = Inr (if k = ''length'' then JNum (int (length s)) else JUndefined)"
| "get_prop (JBool b) k = Inr JUndefined"
| "get_prop (JNum n) k = Inr JUndefined"

text \<open>Sequencing of computations that may throw: the first error ends the evaluation.\<close>

definition and_then :: "js_error + 'a \<Rightarrow> ('a \<Rightarrow> js_error + 'b) \<Rightarrow> js_error + 'b" where
  "and_then r f = (case r of Inl e \<Rightarrow> Inl e | Inr v \<Rightarrow> f v)"

fun mapE :: "('a \<Rightarrow> js_error + 'b) \<Rightarrow> 'a list \<Rightarrow> js_error + 'b list" where
  "mapE f [] = Inr []"
| "mapE f (x # xs) =
     (case f x of
        Inl e \<Rightarrow> Inl e
      | Inr y \<Rightarrow> (case mapE f xs of Inl e \<Rightarrow> Inl e | Inr ys \<Rightarrow> Inr (y # ys)))"

text \<open>\<^verbatim>\<open>xs.join(sep)\<close> on strings.\<close>

fun join :: "string \<Rightarrow> string list \<Rightarrow> string" where
  "join sep [] = []"
| "join sep [x] = x"
| "join sep (x # y # ys) = x @ sep @ join sep (y # ys)"

text \<open>The decimal digits of a natural number.\<close>

definition digit :: "nat \<Rightarrow> char" where
  "digit d = ''0123456789'' ! d"

fun decimal :: "nat \<Rightarrow> string" where
  "decimal n = (if n < 10 then [digit n] else decimal (n div 10) @ [digit (n mod 10)])"

declare decimal.simps [simp del]

section \<open>What the server sends and what it calls\<close>

text \<open>
  \<^verbatim>\<open>Buffer.from(s, "utf-8")\<close> and \<^verbatim>\<open>Buffer.from(s, "base64")\<close> are kept as the string and
  its encoding. The archive library (adm-zip) is not part of the repository, so a \<open>zip\<close> is
  the record of the \<^verbatim>\<open>addFile\<close> calls made on an \<^verbatim>\<open>AdmZip\<close> object: the path and the content
  of each call as the handler gave them, in the order of the calls. \<open>ZipBuffer z\<close> stands
  for the bytes \<^verbatim>\<open>toBuffer()\<close> returns after the calls \<open>z\<close>; which entries those bytes hold
  is the library's doing (see \<open>entry_names\<close>).
\<close>

datatype buffer = Utf8 string | Base64 string

type_synonym zip = "(string \<times> buffer) list"

datatype blob_part = StringPart string | ZipBuffer zip

datatype blob = Blob "blob_part list" string

datatype form_value = FormString string | FormFile blob string

type_synonym formdata = "(string \<times> form_value) list"

text \<open>The \<^verbatim>\<open>body\<close> argument of \<^verbatim>\<open>apiRequest\<close>: absent, a record, or a \<^verbatim>\<open>FormData\<close>.\<close>

datatype req_body = NoBody | RecordBody "(string \<times> json) list" | FormBody formdata

text \<open>
  The \<^verbatim>\<open>body\<close> given to \<^verbatim>\<open>fetch\<close>: \<open>JsonString kvs\<close> stands for the string
  \<^verbatim>\<open>JSON.stringify(body)\<close> of the record \<open>kvs\<close>.
\<close>

datatype fetch_body = BodyUndefined | JsonString "(string \<times> json) list" | FormData formdata

record request =
  req_method :: string
  req_url :: string
  req_headers :: "(string \<times> string) list"
  req_body :: fetch_body

text \<open>
  The calls a handler makes outside the process, in the order it makes them: the three
  calls on the archive library and the network call.
\<close>

datatype event =
    New_AdmZip
  | AddFile string buffer
  | ToBuffer
  | Fetch request

type_synonym 'a eff = "event list \<Rightarrow> 'a \<times> event list"

text \<open>
  What the runtime supplies: the two environment variables, the backend behind
  \<^verbatim>\<open>fetch(url, ...)\<close> followed by \<^verbatim>\<open>res.json()\<close>, and the built-ins whose output depends on
  the runtime or its locale: \<^verbatim>\<open>encodeURIComponent\<close>, the serializer of \<^verbatim>\<open>URLSearchParams\<close>,
  the text \<^verbatim>\<open>toLocaleDateString()\<close> gives for the date \<^verbatim>\<open>new Date(v)\<close> reads from a value,
  \<^verbatim>\<open>v.toLocaleString()\<close> on a value that is neither \<^verbatim>\<open>null\<close> nor \<^verbatim>\<open>undefined\<close> (it may throw),
  \<^verbatim>\<open>JSON.stringify(v, null, 2)\<close>, and \<^verbatim>\<open>String(n)\<close> of a number that is not a safe integer.
\<close>

record platform =
  PAGE4U_API_KEY :: "string option"
  PAGE4U_API_URL :: "string option"
  fetch_json :: "request \<Rightarrow> js_error + json"
  encodeURIComponent :: "string \<Rightarrow> string"
  form_urlencode :: "string \<Rightarrow> string"
  toLocaleDateString :: "json \<Rightarrow> string"
  toLocaleString :: "json \<Rightarrow> js_error + string"
  JSON_stringify :: "json \<Rightarrow> string"
  Number_toString :: "int \<Rightarrow> string"

definition API_KEY :: "platform \<Rightarrow> string" where
  "API_KEY pf = (case PAGE4U_API_KEY pf of None \<Rightarrow> [] | Some k \<Rightarrow> k)"

definition BASE_URL :: "platform \<Rightarrow> string" where
  "BASE_URL pf =
     rev (dropWhile (\<lambda>c. c = CHR ''/'')
       (rev (case PAGE4U_API_URL pf of None \<Rightarrow> ''https://page4u.ai'' | Some u \<Rightarrow> u)))"

section \<open>Conversion to strings\<close>

text \<open>
  \<^verbatim>\<open>String(n)\<close> of a number. A safe integer (below \<open>2^53\<close> in magnitude) prints in plain
  decimal. Beyond that the number is the double nearest to the literal and prints as the
  runtime's \<^verbatim>\<open>Number::toString\<close> has it (\<open>10^21\<close> prints as \<^verbatim>\<open>1e+21\<close>); that is the
  runtime's \<open>Number_toString\<close>.
\<close>

definition signed_decimal :: "int \<Rightarrow> string" where
  "signed_decimal i = (if 0 \<le> i then decimal (nat i) else CHR ''-'' # decimal (nat (- i)))"

definition number_to_string :: "platform \<Rightarrow> int \<Rightarrow> string" where
  "number_to_string pf i =
     (if \<bar>i\<bar> < 2 ^ 53 then signed_decimal i else Number_toString pf i)"

text \<open>
  The string a template literal \<^verbatim>\<open>`${v}`\<close> puts in for a value, and the \<^verbatim>\<open>TypeError\<close> it
  throws when the value has none. An object of a reply has no method of its own, so it
  prints by the \<^verbatim>\<open>toString\<close> it inherits, as \<^verbatim>\<open>[object Object]\<close>, unless a key \<^verbatim>\<open>toString\<close> of
  its own hides that one: then there is no callable \<^verbatim>\<open>toString\<close>, \<^verbatim>\<open>valueOf\<close> gives no
  primitive, and the conversion throws. An array prints its elements joined by commas,
  \<^verbatim>\<open>null\<close> and \<^verbatim>\<open>undefined\<close> elements as nothing, and throws when an element does.
\<close>

fun to_string :: "platform \<Rightarrow> json \<Rightarrow> js_error + string"
  and to_strings :: "platform \<Rightarrow> json list \<Rightarrow> js_error + string list"
where
  "to_string pf JUndefined = Inr ''undefined''"
| "to_string pf JNull = Inr ''null''"
| "to_string pf (JBool b) = Inr (if b then ''true'' else ''false'')"
| "to_string pf (JNum n) = Inr (number_to_string pf n)"
| "to_string pf (JStr s) = Inr s"
| "to_string pf (JArr xs) =
     (case to_strings pf xs of Inl e \<Rightarrow> Inl e | Inr strs \<Rightarrow> Inr (join '','' strs))"
| "to_string pf (JObj kvs) =
     (if map_of kvs ''toString'' = None then Inr ''[object Object]'' else Inl TypeError)"
| "to_strings pf [] = Inr []"
| "to_strings pf (x # xs) =
     (case (if x = JUndefined \<or> x = JNull then Inr [] else to_string pf x) of
        Inl e \<Rightarrow> Inl e
      | Inr s \<Rightarrow> (case to_strings pf xs of Inl e \<Rightarrow> Inl e | Inr strs \<Rightarrow> Inr (s # strs)))"

text \<open>\<^verbatim>\<open>v.map(f)\<close> and \<^verbatim>\<open>v.join(sep)\<close>: only an array has them.\<close>

fun array_map :: "(json \<Rightarrow> js_error + 'b) \<Rightarrow> json \<Rightarrow> js_error + 'b list" where
  "array_map f (JArr xs) = mapE f xs"
| "array_map f v = Inl TypeError"

fun array_join :: "platform \<Rightarrow> string \<Rightarrow> json \<Rightarrow> js_error + string" where
  "array_join pf sep (JArr xs) =
     (case to_strings pf xs of Inl e \<Rightarrow> Inl e | Inr strs \<Rightarrow> Inr (join sep strs))"
| "array_join pf sep v = Inl TypeError"

text \<open>
  \<^verbatim>\<open>new Date(v).toLocaleDateString()\<close>: the constructor converts an object or an array to
  a primitive first, which throws where \<open>to_string\<close> does; the date it then reads, and the
  text of that date, are the runtime's.
\<close>

definition date_text :: "platform \<Rightarrow> json \<Rightarrow> js_error + string" where
  "date_text pf v = and_then (to_string pf v) (\<lambda>s. Inr (toLocaleDateString pf v))"

section \<open>apiRequest\<close>

text \<open>
  Lines 56 to 62: the reply is returned when its \<^verbatim>\<open>success\<close> is truthy, and otherwise an
  \<^verbatim>\<open>Error\<close> is thrown with the message \<^verbatim>\<open>`${json.error.code}: ${json.error.message}`\<close>.
\<close>

definition apiRequest_envelope :: "platform \<Rightarrow> json \<Rightarrow> js_error + json" where
  "apiRequest_envelope pf json =
     and_then (get_prop json ''success'') (\<lambda>success.
       if \<not> truthy success then
         and_then (get_prop json ''error'') (\<lambda>error1.
         and_then (get_prop error1 ''code'') (\<lambda>code.
         and_then (to_string pf code) (\<lambda>code_text.
         and_then (get_prop json ''error'') (\<lambda>error2.
         and_then (get_prop error2 ''message'') (\<lambda>message.
         and_then (to_string pf message) (\<lambda>message_text.
           Inl (Error (code_text @ '': '' @ message_text))))))))
       else Inr json)"

text \<open>Lines 41 to 55: the request given to \<^verbatim>\<open>fetch\<close>.\<close>

definition apiRequest_fetch :: "platform \<Rightarrow> string \<Rightarrow> string \<Rightarrow> req_body \<Rightarrow> request" where
  "apiRequest_fetch pf meth path body =
     (let url = BASE_URL pf @ ''/api/v1'' @ path;
          headers = [(''Authorization'', ''Bearer '' @ API_KEY pf), (''X-Page4U-Client'', ''mcp'')];
          (headers', fetchBody) =
            (case body of
               FormBody fd \<Rightarrow> (headers, FormData fd)
             | RecordBody kvs \<Rightarrow>
                 (headers @ [(''Content-Type'', ''application/json'')], JsonString kvs)
             | NoBody \<Rightarrow> (headers, BodyUndefined))
      in \<lparr>req_method = meth, req_url = url, req_headers = headers', req_body = fetchBody\<rparr>)"

definition apiRequest :: "platform \<Rightarrow> string \<Rightarrow> string \<Rightarrow> req_body \<Rightarrow> (js_error + json) eff" where
  "apiRequest pf meth path body tr =
     (if API_KEY pf = [] then
        (Inl (Error (''PAGE4U_API_KEY environment variable is not set. '' @
                     ''Get your key at https://page4u.ai/dashboard/settings'')), tr)
      else
        (let req = apiRequest_fetch pf meth path body
         in (and_then (fetch_json pf req) (apiRequest_envelope pf), tr @ [Fetch req])))"

text \<open>
  A result is \<^verbatim>\<open>{ content: [{ type: "text", text }] }\<close>. \<open>TextUndefined\<close> is the item whose
  \<^verbatim>\<open>text\<close> is \<^verbatim>\<open>undefined\<close>, which \<^verbatim>\<open>JSON.stringify\<close> gives for \<^verbatim>\<open>undefined\<close>.
\<close>

datatype content_item = TextContent string | TextUndefined

type_synonym tool_result = "content_item list"

definition textResult :: "string \<Rightarrow> tool_result" where
  "textResult t = [TextContent t]"

section \<open>The tools\<close>

text \<open>
  A handler receives its parameters as the schema types them: an optional string is a
  \<open>string option\<close>, and the test \<^verbatim>\<open>if (x)\<close> on it holds when it is given and not empty.
\<close>

fun given :: "string option \<Rightarrow> bool" where
  "given None = False"
| "given (Some s) = (s \<noteq> [])"

fun str :: "string option \<Rightarrow> string" where
  "str None = ''undefined''"
| "str (Some s) = s"

text \<open>
  \<^verbatim>\<open>obj[k] = v\<close> and \<^verbatim>\<open>params.set(k, v)\<close>: the value of an existing key is replaced where it
  stands, a new key goes to the end.
\<close>

fun set_key :: "(string \<times> 'v) list \<Rightarrow> string \<Rightarrow> 'v \<Rightarrow> (string \<times> 'v) list" where
  "set_key [] k v = [(k, v)]"
| "set_key ((k', v') # kvs) k v =
     (if k' = k then (k, v) # kvs else (k', v') # set_key kvs k v)"

definition URLSearchParams_toString :: "platform \<Rightarrow> (string \<times> string) list \<Rightarrow> string" where
  "URLSearchParams_toString pf params =
     join ''&'' (map (\<lambda>(k, v). form_urlencode pf k @ ''='' @ form_urlencode pf v) params)"

subsection \<open>list\_pages\<close>

definition page_line :: "platform \<Rightarrow> json \<Rightarrow> js_error + string" where
  "page_line pf p =
     and_then (get_prop p ''slug'') (\<lambda>slug.
     and_then (to_string pf slug) (\<lambda>slug_text.
     and_then (get_prop p ''businessName'') (\<lambda>businessName.
     and_then (if truthy businessName then to_string pf businessName
               else Inr ''(no name)'') (\<lambda>name_text.
     and_then (get_prop p ''status'') (\<lambda>status.
     and_then (to_string pf status) (\<lambda>status_text.
     and_then (get_prop p ''createdAt'') (\<lambda>createdAt.
     and_then (date_text pf createdAt) (\<lambda>date.
       Inr (''- '' @ slug_text @ '' | '' @ name_text @ '' | '' @ status_text @ '' | '' @
            date)))))))))"

definition list_pages_result :: "platform \<Rightarrow> json \<Rightarrow> js_error + tool_result" where
  "list_pages_result pf json =
     and_then (get_prop json ''data'') (\<lambda>data.
     and_then (get_prop json ''total'') (\<lambda>total.
     and_then (get_prop data ''length'') (\<lambda>len.
       if len = JNum 0 then Inr (textResult ''No pages found.'')
       else
         and_then (array_map (page_line pf) data) (\<lambda>lines.
         and_then (to_string pf (if nullish total then len else total)) (\<lambda>count.
           Inr (textResult (count @ '' page(s):\<newline>\<newline>'' @
                            join ''\<newline>'' lines)))))))"

definition list_pages :: "platform \<Rightarrow> string option \<Rightarrow> (js_error + tool_result) eff" where
  "list_pages pf status tr =
     (let path = (if given status then ''/pages?status='' @ str status else ''/pages'');
          (r, tr') = apiRequest pf ''GET'' path NoBody tr
      in (and_then r (list_pages_result pf), tr'))"

subsection \<open>get\_page\<close>

definition get_page_result :: "platform \<Rightarrow> json \<Rightarrow> js_error + tool_result" where
  "get_page_result pf json =
     and_then (get_prop json ''data'') (\<lambda>data.
       Inr (if data = JUndefined then [TextUndefined]
            else textResult (JSON_stringify pf data)))"

definition get_page :: "platform \<Rightarrow> string \<Rightarrow> (js_error + tool_result) eff" where
  "get_page pf slug tr =
     (let (r, tr') = apiRequest pf ''GET'' (''/pages/'' @ encodeURIComponent pf slug) NoBody tr
      in (and_then r (get_page_result pf), tr'))"

subsection \<open>deploy\_page\<close>

record asset =
  filename :: string
  content :: string

text \<open>
  The three calls on the archive library. Each goes on the trace; \<^verbatim>\<open>addFile\<close> adds its
  arguments to the record of the calls, whatever the library does with them.
\<close>

definition AdmZip_new :: "zip eff" where
  "AdmZip_new tr = ([], tr @ [New_AdmZip])"

definition addFile :: "zip \<Rightarrow> string \<Rightarrow> buffer \<Rightarrow> zip eff" where
  "addFile z entryName data tr = (z @ [(entryName, data)], tr @ [AddFile entryName data])"

definition toBuffer :: "zip \<Rightarrow> blob_part eff" where
  "toBuffer z tr = (ZipBuffer z, tr @ [ToBuffer])"

text \<open>The loop \<^verbatim>\<open>for (const asset of assets) zip.addFile(...)\<close>.\<close>

fun addAssets :: "zip \<Rightarrow> asset list \<Rightarrow> zip eff" where
  "addAssets z [] tr = (z, tr)"
| "addAssets z (a # as) tr =
     (let (z', tr') = addFile z (filename a) (Base64 (content a)) tr in addAssets z' as tr')"

definition append_if_given :: "formdata \<Rightarrow> string \<Rightarrow> string option \<Rightarrow> formdata" where
  "append_if_given formData name v =
     (if given v then formData @ [(name, FormString (str v))] else formData)"

text \<open>Lines 165 to 190: the form, with the archive or the single document as its file.\<close>

definition deploy_page_form ::
  "string \<Rightarrow> asset list option \<Rightarrow> string option \<Rightarrow> string option \<Rightarrow> string option \<Rightarrow> formdata eff"
where
  "deploy_page_form html assets slug locale whatsapp tr =
     (let (formData, tr') =
            (case assets of
               Some (a # as) \<Rightarrow>
                 (let (zip0, tr0) = AdmZip_new tr;
                      (zip1, tr1) = addFile zip0 ''index.html'' (Utf8 html) tr0;
                      (zip2, tr2) = addAssets zip1 (a # as) tr1;
                      (zipBuffer, tr3) = toBuffer zip2 tr2
                  in ([(''file'', FormFile (Blob [zipBuffer] ''application/zip'') ''site.zip'')], tr3))
             | _ \<Rightarrow> ([(''file'', FormFile (Blob [StringPart html] ''text/html'') ''index.html'')], tr))
      in (append_if_given (append_if_given (append_if_given formData
            ''slug'' slug) ''locale'' locale) ''whatsapp'' whatsapp, tr'))"

definition deploy_page_result ::
  "platform \<Rightarrow> asset list option \<Rightarrow> json \<Rightarrow> js_error + tool_result"
where
  "deploy_page_result pf assets json =
     and_then (get_prop json ''data'') (\<lambda>data.
     and_then (get_prop data ''url'') (\<lambda>url.
     and_then (to_string pf url) (\<lambda>url_text.
     and_then (get_prop data ''slug'') (\<lambda>slug.
     and_then (to_string pf slug) (\<lambda>slug_text.
     and_then (get_prop data ''businessName'') (\<lambda>businessName.
     and_then (if truthy businessName then to_string pf businessName else Inr []) (\<lambda>name_text.
     and_then (get_prop data ''warnings'') (\<lambda>warnings.
     and_then (if nullish warnings then Inr JUndefined else get_prop warnings ''length'') (\<lambda>wlen.
       let result0 = ''Page deployed!\<newline>\<newline>URL: '' @ url_text @
                     ''\<newline>Slug: '' @ slug_text;
           result1 = (if truthy businessName
                      then result0 @ ''\<newline>Name: '' @ name_text else result0);
           result2 = (case assets of
                        Some (a # as) \<Rightarrow>
                          result1 @ ''\<newline>Assets: '' @
                          number_to_string pf (int (length (a # as))) @ '' file(s) included''
                      | _ \<Rightarrow> result1)
       in if truthy wlen then
            and_then (array_map (\<lambda>w. and_then (to_string pf w) (\<lambda>t. Inr (''- '' @ t)))
                        warnings) (\<lambda>ws.
              Inr (textResult (result2 @ ''\<newline>\<newline>Warnings:\<newline>'' @
                               join ''\<newline>'' ws)))
          else Inr (textResult result2))))))))))"

definition deploy_page ::
  "platform \<Rightarrow> string \<Rightarrow> asset list option \<Rightarrow> string option \<Rightarrow> string option \<Rightarrow> string option \<Rightarrow>
   (js_error + tool_result) eff"
where
  "deploy_page pf html assets slug locale whatsapp tr =
     (let (formData, tr1) = deploy_page_form html assets slug locale whatsapp tr;
          (r, tr2) = apiRequest pf ''POST'' ''/pages'' (FormBody formData) tr1
      in (and_then r (deploy_page_result pf assets), tr2))"

subsection \<open>update\_page\<close>

text \<open>
  \<open>entries\<close> is \<^verbatim>\<open>Object.entries(fields)\<close> of the rest parameter: the metadata keys of the
  call with their values, \<open>None\<close> for \<^verbatim>\<open>undefined\<close>. The loop copies the entries whose
  value is not \<^verbatim>\<open>undefined\<close> into \<^verbatim>\<open>body\<close>.
\<close>

fun update_page_body ::
  "(string \<times> json) list \<Rightarrow> (string \<times> string option) list \<Rightarrow> (string \<times> json) list"
where
  "update_page_body body [] = body"
| "update_page_body body ((k, v) # entries) =
     update_page_body (case v of None \<Rightarrow> body | Some s \<Rightarrow> set_key body k (JStr s)) entries"

definition update_page_result :: "platform \<Rightarrow> json \<Rightarrow> js_error + tool_result" where
  "update_page_result pf json =
     and_then (get_prop json ''data'') (\<lambda>data.
     and_then (get_prop data ''slug'') (\<lambda>slug.
     and_then (to_string pf slug) (\<lambda>slug_text.
     and_then (get_prop data ''updated'') (\<lambda>updated.
     and_then (array_join pf '', '' updated) (\<lambda>changed.
       Inr (textResult (''Page \"'' @ slug_text @ ''\" updated. Fields changed: '' @
                        changed)))))))"

definition update_page ::
  "platform \<Rightarrow> string \<Rightarrow> (string \<times> string option) list \<Rightarrow> (js_error + tool_result) eff"
where
  "update_page pf slug entries tr =
     (let body = update_page_body [] entries
      in if length body = 0 then (Inr (textResult ''No fields to update.''), tr)
         else
           (let (r, tr') = apiRequest pf ''PUT'' (''/pages/'' @ encodeURIComponent pf slug)
                             (RecordBody body) tr
            in (and_then r (update_page_result pf), tr')))"

subsection \<open>delete\_page\<close>

definition delete_page :: "platform \<Rightarrow> string \<Rightarrow> (js_error + tool_result) eff" where
  "delete_page pf slug tr =
     (let (r, tr') = apiRequest pf ''DELETE'' (''/pages/'' @ encodeURIComponent pf slug) NoBody tr
      in (and_then r (\<lambda>json. Inr (textResult (''Page \"'' @ slug @ ''\" deleted.''))), tr'))"

subsection \<open>get\_leads\<close>

definition lead_line :: "platform \<Rightarrow> json \<Rightarrow> js_error + string" where
  "lead_line pf l =
     and_then (get_prop l ''name'') (\<lambda>name.
     and_then (if truthy name then to_string pf name else Inr []) (\<lambda>name_text.
     and_then (get_prop l ''phone'') (\<lambda>phone.
     and_then (if truthy phone then to_string pf phone else Inr []) (\<lambda>phone_text.
     and_then (get_prop l ''email'') (\<lambda>email.
     and_then (if truthy email then to_string pf email else Inr []) (\<lambda>email_text.
     and_then (get_prop l ''message'') (\<lambda>message.
     and_then (if truthy message then to_string pf message else Inr []) (\<lambda>message_text.
     and_then (get_prop l ''status'') (\<lambda>status.
     and_then (to_string pf status) (\<lambda>status_text.
     and_then (get_prop l ''createdAt'') (\<lambda>createdAt.
     and_then (date_text pf createdAt) (\<lambda>date.
       Inr (join '' | ''
             ((if truthy name then [''Name: '' @ name_text] else []) @
              (if truthy phone then [''Phone: '' @ phone_text] else []) @
              (if truthy email then [''Email: '' @ email_text] else []) @
              (if truthy message then [''Message: '' @ message_text] else []) @
              [''Status: '' @ status_text, ''Date: '' @ date]))))))))))))))"

definition get_leads_result :: "platform \<Rightarrow> string \<Rightarrow> json \<Rightarrow> js_error + tool_result" where
  "get_leads_result pf slug json =
     and_then (get_prop json ''data'') (\<lambda>data.
     and_then (get_prop json ''total'') (\<lambda>total.
     and_then (get_prop data ''length'') (\<lambda>len.
       if len = JNum 0 then Inr (textResult (''No leads found for \"'' @ slug @ ''\".''))
       else
         and_then (array_map (lead_line pf) data) (\<lambda>lines.
         and_then (to_string pf (if nullish total then len else total)) (\<lambda>count.
           Inr (textResult (count @ '' lead(s) for \"'' @ slug @
                            ''\":\<newline>\<newline>'' @ join ''\<newline>'' lines)))))))"

text \<open>Lines 285 to 288 and the path of line 299.\<close>

definition get_leads_path :: "platform \<Rightarrow> string \<Rightarrow> string option \<Rightarrow> int option \<Rightarrow> string" where
  "get_leads_path pf slug status limit =
     (let params0 = [];
          params1 = (if given status then set_key params0 ''status'' (str status) else params0);
          params2 = (case limit of
                       None \<Rightarrow> params1
                     | Some n \<Rightarrow>
                         if n \<noteq> 0 then set_key params1 ''limit'' (number_to_string pf n) else params1);
          qs = URLSearchParams_toString pf params2
      in ''/pages/'' @ encodeURIComponent pf slug @ ''/leads'' @
         (if qs \<noteq> [] then ''?'' @ qs else []))"

definition get_leads ::
  "platform \<Rightarrow> string \<Rightarrow> string option \<Rightarrow> int option \<Rightarrow> (js_error + tool_result) eff"
where
  "get_leads pf slug status limit tr =
     (let (r, tr') = apiRequest pf ''GET'' (get_leads_path pf slug status limit) NoBody tr
      in (and_then r (get_leads_result pf slug), tr'))"

subsection \<open>get\_analytics\<close>

definition counter :: "platform \<Rightarrow> json \<Rightarrow> string \<Rightarrow> js_error + string" where
  "counter pf data k =
     and_then (get_prop data k) (\<lambda>v. if nullish v then Inl TypeError else toLocaleString pf v)"

definition get_analytics_result :: "platform \<Rightarrow> string \<Rightarrow> json \<Rightarrow> js_error + tool_result" where
  "get_analytics_result pf slug json =
     and_then (get_prop json ''data'') (\<lambda>data.
     and_then (get_prop data ''period'') (\<lambda>p.
     and_then (case p of
                 JStr s \<Rightarrow> Inr s
               | _ \<Rightarrow>
                   and_then (get_prop p ''from'') (\<lambda>from.
                   and_then (to_string pf from) (\<lambda>from_text.
                   and_then (get_prop p ''to'') (\<lambda>to.
                   and_then (to_string pf to) (\<lambda>to_text.
                     Inr (from_text @ '' to '' @ to_text)))))) (\<lambda>period.
     and_then (counter pf data ''totalEvents'') (\<lambda>totalEvents.
     and_then (counter pf data ''page_view'') (\<lambda>page_view.
     and_then (counter pf data ''button_click'') (\<lambda>button_click.
     and_then (counter pf data ''whatsapp_click'') (\<lambda>whatsapp_click.
     and_then (counter pf data ''phone_click'') (\<lambda>phone_click.
     and_then (counter pf data ''email_click'') (\<lambda>email_click.
     and_then (counter pf data ''form_submit'') (\<lambda>form_submit.
       Inr (textResult (join ''\<newline>''
         [''Analytics for \"'' @ slug @ ''\" ('' @ period @ ''):'',
          [],
          ''Total Events:     '' @ totalEvents,
          ''Page Views:       '' @ page_view,
          ''Button Clicks:    '' @ button_click,
          ''WhatsApp Clicks:  '' @ whatsapp_click,
          ''Phone Clicks:     '' @ phone_click,
          ''Email Clicks:     '' @ email_click,
          ''Form Submits:     '' @ form_submit]))))))))))))"

definition get_analytics ::
  "platform \<Rightarrow> string \<Rightarrow> string option \<Rightarrow> string option \<Rightarrow> (js_error + tool_result) eff"
where
  "get_analytics pf slug from to tr =
     (let params0 = [];
          params1 = (if given from then set_key params0 ''from'' (str from) else params0);
          params2 = (if given to then set_key params1 ''to'' (str to) else params1);
          qs = URLSearchParams_toString pf params2;
          (r, tr') = apiRequest pf ''GET''
                       (''/pages/'' @ encodeURIComponent pf slug @ ''/analytics'' @
                        (if qs \<noteq> [] then ''?'' @ qs else [])) NoBody tr
      in (and_then r (get_analytics_result pf slug), tr'))"

subsection \<open>The registry\<close>

text \<open>One constructor per registered tool, with the parameters of its input schema.\<close>

datatype tool_call =
    List_pages "string option"
  | Get_page string
  | Deploy_page string "asset list option" "string option" "string option" "string option"
  | Update_page string "(string \<times> string option) list"
  | Delete_page string
  | Get_leads string "string option" "int option"
  | Get_analytics string "string option" "string option"

fun call_tool :: "platform \<Rightarrow> tool_call \<Rightarrow> (js_error + tool_result) eff" where
  "call_tool pf (List_pages status) = list_pages pf status"
| "call_tool pf (Get_page slug) = get_page pf slug"
| "call_tool pf (Deploy_page html assets slug locale whatsapp) =
     deploy_page pf html assets slug locale whatsapp"
| "call_tool pf (Update_page slug entries) = update_page pf slug entries"
| "call_tool pf (Delete_page slug) = delete_page pf slug"
| "call_tool pf (Get_leads slug status limit) = get_leads pf slug status limit"
| "call_tool pf (Get_analytics slug from to) = get_analytics pf slug from to"

section \<open>Reading a trace, a form and an envelope\<close>

text \<open>The network calls of a trace, and its calls on the archive library.\<close>

fun requests :: "event list \<Rightarrow> request list" where
  "requests [] = []"
| "requests (Fetch r # es) = r # requests es"
| "requests (e # es) = requests es"

fun archive_calls :: "event list \<Rightarrow> event list" where
  "archive_calls [] = []"
| "archive_calls (Fetch r # es) = archive_calls es"
| "archive_calls (e # es) = e # archive_calls es"

text \<open>The files of a form, and the files of the forms a trace sent over the network.\<close>

fun form_files :: "formdata \<Rightarrow> (blob \<times> string) list" where
  "form_files [] = []"
| "form_files ((k, FormFile b n) # fd) = (b, n) # form_files fd"
| "form_files ((k, FormString s) # fd) = form_files fd"

fun sent_files :: "request list \<Rightarrow> (blob \<times> string) list" where
  "sent_files [] = []"
| "sent_files (r # rs) =
     (case req_body r of FormData fd \<Rightarrow> form_files fd | _ \<Rightarrow> []) @ sent_files rs"

text \<open>The archives among some files: for each, the entries it was built from.\<close>

fun archives :: "(blob \<times> string) list \<Rightarrow> zip list" where
  "archives [] = []"
| "archives ((Blob [ZipBuffer z] t, n) # fs) = z # archives fs"
| "archives (f # fs) = archives fs"

text \<open>
  The two arms of the envelope as lines 20 to 28 declare them:
  \<^verbatim>\<open>ApiSuccess<T> = { success: true; data: T; total?: number }\<close> and
  \<^verbatim>\<open>ApiError = { success: false; error: { code: string; message: string } }\<close>.
  \<open>as_ApiSuccess\<close> gives the \<open>data\<close> and the \<open>total\<close> of a value of the first shape,
  \<open>as_ApiError\<close> the \<open>code\<close> and the \<open>message\<close> of a value of the second.
\<close>

fun as_ApiSuccess :: "json \<Rightarrow> (json \<times> int option) option" where
  "as_ApiSuccess (JObj kvs) =
     (case (map_of kvs ''success'', map_of kvs ''data'', map_of kvs ''total'') of
        (Some (JBool True), Some d, None) \<Rightarrow> Some (d, None)
      | (Some (JBool True), Some d, Some (JNum n)) \<Rightarrow> Some (d, Some n)
      | _ \<Rightarrow> None)"
| "as_ApiSuccess v = None"

fun as_ApiError :: "json \<Rightarrow> (string \<times> string) option" where
  "as_ApiError (JObj kvs) =
     (case (map_of kvs ''success'', map_of kvs ''error'') of
        (Some (JBool False), Some (JObj e)) \<Rightarrow>
          (case (map_of e ''code'', map_of e ''message'') of
             (Some (JStr c), Some (JStr m)) \<Rightarrow> Some (c, m)
           | _ \<Rightarrow> None)
      | _ \<Rightarrow> None)"
| "as_ApiError v = None"

text \<open>
  The element type the \<^verbatim>\<open>get_leads\<close> handler declares for \<^verbatim>\<open>data\<close> (lines 291 to 298):
  \<^verbatim>\<open>{ name?: string; phone?: string; email?: string; message?: string; status: string;
  createdAt: string }\<close>.
\<close>

fun optional_string :: "json option \<Rightarrow> bool" where
  "optional_string None = True"
| "optional_string (Some (JStr s)) = True"
| "optional_string (Some v) = False"

fun required_string :: "json option \<Rightarrow> bool" where
  "required_string (Some (JStr s)) = True"
| "required_string v = False"

fun is_Lead :: "json \<Rightarrow> bool" where
  "is_Lead (JObj kvs) =
     (optional_string (map_of kvs ''name'') \<and> optional_string (map_of kvs ''phone'') \<and>
      optional_string (map_of kvs ''email'') \<and> optional_string (map_of kvs ''message'') \<and>
      required_string (map_of kvs ''status'') \<and> required_string (map_of kvs ''createdAt''))"
| "is_Lead v = False"

text \<open>
  The archive library (adm-zip) is not part of the repository; the handler's part is the
  calls it makes, and a \<open>zip\<close> is the record of those. What the library files them under is
  its own: \<^verbatim>\<open>addFile\<close> adds or updates the entry of the name it makes of the path, and no
  call removes an entry, so the entry names of the archive are the names the library makes
  of the paths of the calls. \<open>entry_names stored z\<close> is that set for a library that files a
  path \<open>p\<close> under \<open>stored p\<close>.
\<close>

definition entry_names :: "(string \<Rightarrow> string) \<Rightarrow> zip \<Rightarrow> string set" where
  "entry_names stored z = stored ` fst ` set z"

text \<open>
  The name adm-zip makes of a path, its \<^verbatim>\<open>zipnamefix\<close>:
  \<^verbatim>\<open>path.posix.join(".", path.posix.normalize("/" + p.split("\\").join("/")))\<close>, and the
  empty name for the empty path. Backslashes become slashes; empty segments and \<^verbatim>\<open>.\<close>
  segments go; a \<^verbatim>\<open>..\<close> segment takes the segment before it with it, or nothing at the root;
  a trailing slash stays.
\<close>

fun split_path :: "string \<Rightarrow> string list" where
  "split_path [] = [[]]"
| "split_path (c # cs) =
     (if c = CHR ''/'' then [] # split_path cs
      else (case split_path cs of seg # segs \<Rightarrow> (c # seg) # segs | [] \<Rightarrow> [[c]]))"

fun resolve_segments :: "string list \<Rightarrow> string list \<Rightarrow> string list" where
  "resolve_segments kept [] = rev kept"
| "resolve_segments kept (seg # segs) =
     (if seg = [] \<or> seg = ''.'' then resolve_segments kept segs
      else if seg = ''..'' then resolve_segments (drop 1 kept) segs
      else resolve_segments (seg # kept) segs)"

definition zipnamefix :: "string \<Rightarrow> string" where
  "zipnamefix path =
     (if path = [] then []
      else
        (let p = map (\<lambda>c. if c = CHR 0x5C then CHR ''/'' else c) path;
             segs = resolve_segments [] (split_path p)
         in if segs = [] then ''./''
            else join ''/'' segs @ (if last p = CHR ''/'' then ''/'' else [])))"

text \<open>
  A runtime to run the handlers on: the key of the environment, a backend that answers
  every request with the same reply, and built-ins that give a string back as it is and
  have one fixed answer for every other value.
\<close>

definition fixed_reply :: "string option \<Rightarrow> json \<Rightarrow> platform" where
  "fixed_reply key reply =
     \<lparr>PAGE4U_API_KEY = key, PAGE4U_API_URL = None,
      fetch_json = (\<lambda>req. Inr reply),
      encodeURIComponent = (\<lambda>s. s), form_urlencode = (\<lambda>s. s),
      toLocaleDateString = (\<lambda>v. case v of JStr s \<Rightarrow> s | _ \<Rightarrow> ''Invalid Date''),
      toLocaleString = (\<lambda>v. case v of JStr s \<Rightarrow> Inr s | _ \<Rightarrow> Inl TypeError),
      JSON_stringify = (\<lambda>v. case v of JStr s \<Rightarrow> s | _ \<Rightarrow> ''{}''),
      Number_toString = (\<lambda>n. ''1e+21'')\<rparr>"

text \<open>
  The calls \<^verbatim>\<open>deploy_page\<close> makes on the archive library: none without assets, and with
  assets the constructor, one \<^verbatim>\<open>addFile\<close> for the document, one for each asset, and
  \<^verbatim>\<open>toBuffer\<close>.
\<close>

definition bundle_calls :: "string \<Rightarrow> asset list option \<Rightarrow> event list" where
  "bundle_calls html assets =
     (case assets of
        Some (a # as) \<Rightarrow>
          New_AdmZip # AddFile ''index.html'' (Utf8 html) #
          map (\<lambda>a. AddFile (filename a) (Base64 (content a))) (a # as) @ [ToBuffer]
      | _ \<Rightarrow> [])"

section \<open>Lemmas on the transport and the handlers\<close>

lemma and_then_Inl [simp]: "and_then (Inl e) f = Inl e"
  by (simp add: and_then_def)

lemma and_then_Inr [simp]: "and_then (Inr v) f = f v"
  by (simp add: and_then_def)

lemma requests_append [simp]: "requests (xs @ ys) = requests xs @ requests ys"
  by (induction xs rule: requests.induct) simp_all

lemma archive_calls_append [simp]: "archive_calls (xs @ ys) = archive_calls xs @ archive_calls ys"
  by (induction xs rule: archive_calls.induct) simp_all

lemma apiRequest_no_key:
  "API_KEY pf = [] \<Longrightarrow>
   apiRequest pf m p b tr =
     (Inl (Error (''PAGE4U_API_KEY environment variable is not set. '' @
                  ''Get your key at https://page4u.ai/dashboard/settings'')), tr)"
  by (simp add: apiRequest_def)

lemma apiRequest_with_key:
  "API_KEY pf \<noteq> [] \<Longrightarrow>
   apiRequest pf m p b tr =
     (and_then (fetch_json pf (apiRequest_fetch pf m p b)) (apiRequest_envelope pf),
      tr @ [Fetch (apiRequest_fetch pf m p b)])"
  by (simp add: apiRequest_def Let_def)

lemma addAssets_eq:
  "addAssets z as tr =
     (z @ map (\<lambda>a. (filename a, Base64 (content a))) as,
      tr @ map (\<lambda>a. AddFile (filename a) (Base64 (content a))) as)"
  by (induction as arbitrary: z tr) (simp_all add: addFile_def)

lemma requests_AddFile [simp]: "requests (map (\<lambda>a. AddFile (f a) (g a)) as) = []"
  by (induction as) simp_all

lemma archive_calls_AddFile [simp]:
  "archive_calls (map (\<lambda>a. AddFile (f a) (g a)) as) = map (\<lambda>a. AddFile (f a) (g a)) as"
  by (induction as) simp_all

lemma deploy_page_form_trace:
  "snd (deploy_page_form html assets slug locale whatsapp tr) = tr @ bundle_calls html assets"
  by (simp add: deploy_page_form_def bundle_calls_def AdmZip_new_def addFile_def toBuffer_def
      addAssets_eq Let_def split: option.splits list.splits)

lemma requests_bundle_calls [simp]: "requests (bundle_calls html assets) = []"
  by (simp add: bundle_calls_def split: option.splits list.splits)

lemma envelope_failure:
  "as_ApiError body = Some (c, m) \<Longrightarrow>
   apiRequest_envelope pf body = Inl (Error (c @ '': '' @ m))"
  by (cases body) (auto simp: apiRequest_envelope_def split: option.splits json.splits bool.splits if_splits)

lemma envelope_success:
  "as_ApiSuccess body = Some (d, t) \<Longrightarrow>
   apiRequest_envelope pf body = Inr body \<and> get_prop body ''data'' = Inr d \<and>
   get_prop body ''total'' = Inr (case t of None \<Rightarrow> JUndefined | Some n \<Rightarrow> JNum n)"
  by (cases body) (auto simp: apiRequest_envelope_def split: option.splits json.splits bool.splits if_splits)

lemma Fetch_in_requests: "Fetch r \<in> set tr \<longleftrightarrow> r \<in> set (requests tr)"
  by (induction tr rule: requests.induct) auto

lemma update_page_body_Nil:
  "update_page_body body entries = [] \<longleftrightarrow> body = [] \<and> (\<forall>(k, v) \<in> set entries. v = None)"
proof (induction entries arbitrary: body)
  case Nil
  then show ?case by simp
next
  case (Cons e entries)
  have sk: "set_key b k v \<noteq> []" for b :: "(string \<times> json) list" and k v
    by (cases b) (auto split: if_splits)
  show ?case using Cons sk by (cases e) (auto split: option.splits)
qed

lemma call_tool_shapeI:
  assumes "call_tool pf c tr =
             (and_then (fst (apiRequest pf m p b (tr @ pre))) post,
              snd (apiRequest pf m p b (tr @ pre)))"
    and "requests pre = []"
    and "\<forall>slug entries. c = Update_page slug entries \<longrightarrow> update_page_body [] entries \<noteq> []"
  shows "(\<exists>slug entries. c = Update_page slug entries \<and> update_page_body [] entries = [] \<and>
      call_tool pf c tr = (Inr (textResult ''No fields to update.''), tr))
   \<or> (\<exists>m p b pre post. requests pre = [] \<and>
        (\<forall>slug entries. c = Update_page slug entries \<longrightarrow> update_page_body [] entries \<noteq> []) \<and>
        call_tool pf c tr =
          (and_then (fst (apiRequest pf m p b (tr @ pre))) post,
           snd (apiRequest pf m p b (tr @ pre))))"
  using assms by blast

lemma call_tool_shape:
  "(\<exists>slug entries. c = Update_page slug entries \<and> update_page_body [] entries = [] \<and>
      call_tool pf c tr = (Inr (textResult ''No fields to update.''), tr))
   \<or> (\<exists>m p b pre post. requests pre = [] \<and>
        (\<forall>slug entries. c = Update_page slug entries \<longrightarrow> update_page_body [] entries \<noteq> []) \<and>
        call_tool pf c tr =
          (and_then (fst (apiRequest pf m p b (tr @ pre))) post,
           snd (apiRequest pf m p b (tr @ pre))))"
proof (cases c)
  case (List_pages status)
  show ?thesis
    by (rule call_tool_shapeI[of _ _ _ "''GET''" "if given status then ''/pages?status='' @ str status else ''/pages''" NoBody "[]" "list_pages_result pf"])
       (simp_all add: List_pages list_pages_def Let_def case_prod_unfold)
next
  case (Get_page slug)
  show ?thesis
    by (rule call_tool_shapeI[of _ _ _ "''GET''" "''/pages/'' @ encodeURIComponent pf slug" NoBody "[]" "get_page_result pf"])
       (simp_all add: Get_page get_page_def Let_def case_prod_unfold)
next
  case (Deploy_page html assets slug loc whatsapp)
  show ?thesis
    by (rule call_tool_shapeI[of _ _ _ "''POST''" "''/pages''" "FormBody (fst (deploy_page_form html assets slug loc whatsapp tr))" "bundle_calls html assets" "deploy_page_result pf assets"])
       (simp_all add: Deploy_page deploy_page_def Let_def case_prod_unfold
          deploy_page_form_trace)
next
  case (Update_page slug entries)
  show ?thesis
  proof (cases "update_page_body [] entries = []")
    case True
    then show ?thesis using Update_page by (simp add: update_page_def)
  next
    case False
    show ?thesis
      by (rule call_tool_shapeI[of _ _ _ "''PUT''" "''/pages/'' @ encodeURIComponent pf slug" "RecordBody (update_page_body [] entries)" "[]" "update_page_result pf"])
         (simp_all add: Update_page False update_page_def Let_def case_prod_unfold)
  qed
next
  case (Delete_page slug)
  show ?thesis
    by (rule call_tool_shapeI[of _ _ _ "''DELETE''" "''/pages/'' @ encodeURIComponent pf slug" NoBody "[]" "\<lambda>json. Inr (textResult (''Page \"'' @ slug @ ''\" deleted.''))"])
       (simp_all add: Delete_page delete_page_def Let_def case_prod_unfold)
next
  case (Get_leads slug status limit)
  show ?thesis
    by (rule call_tool_shapeI[of _ _ _ "''GET''" "get_leads_path pf slug status limit" NoBody "[]" "get_leads_result pf slug"])
       (simp_all add: Get_leads get_leads_def Let_def case_prod_unfold)
next
  case (Get_analytics slug "from" to)
  show ?thesis
    by (rule call_tool_shapeI[of _ _ _ "''GET''" _ NoBody "[]" "get_analytics_result pf slug"])
       (simp_all add: Get_analytics get_analytics_def Let_def case_prod_unfold)
qed

lemma deploy_page_form_eq:
  "deploy_page_form html assets slug loc whatsapp tr =
     (append_if_given (append_if_given (append_if_given
        [(''file'',
          case assets of
            Some (a # as) \<Rightarrow>
              FormFile (Blob [ZipBuffer ((''index.html'', Utf8 html) #
                            map (\<lambda>a. (filename a, Base64 (content a))) (a # as))]
                      ''application/zip'') ''site.zip''
          | _ \<Rightarrow> FormFile (Blob [StringPart html] ''text/html'') ''index.html'')]
        ''slug'' slug) ''locale'' loc) ''whatsapp'' whatsapp,
      tr @ bundle_calls html assets)"
  by (simp add: deploy_page_form_def bundle_calls_def AdmZip_new_def addFile_def toBuffer_def
      addAssets_eq Let_def split: option.splits list.splits)

lemma form_files_snoc_string [simp]:
  "form_files (fd @ [(name, FormString s)]) = form_files fd"
  by (induction fd rule: form_files.induct) simp_all

lemma form_files_append_if_given [simp]:
  "form_files (append_if_given fd name v) = form_files fd"
  by (simp add: append_if_given_def)

lemma deploy_page_trace:
  "snd (deploy_page pf html assets slug loc whatsapp tr) =
     tr @ bundle_calls html assets @
     (if API_KEY pf = [] then []
      else [Fetch (apiRequest_fetch pf ''POST'' ''/pages''
                     (FormBody (fst (deploy_page_form html assets slug loc whatsapp tr))))])"
  by (simp add: deploy_page_def case_prod_unfold deploy_page_form_trace apiRequest_no_key
      apiRequest_with_key)

lemma archive_calls_bundle_calls [simp]:
  "archive_calls (bundle_calls html assets) = bundle_calls html assets"
  by (simp add: bundle_calls_def split: option.splits list.splits)

lemma req_body_apiRequest_fetch [simp]:
  "req_body (apiRequest_fetch pf m p (FormBody fd)) = FormData fd"
  "req_body (apiRequest_fetch pf m p (RecordBody kvs)) = JsonString kvs"
  "req_body (apiRequest_fetch pf m p NoBody) = BodyUndefined"
  by (simp_all add: apiRequest_fetch_def)

lemma set_key_fresh: "k \<notin> fst ` set body \<Longrightarrow> set_key body k v = body @ [(k, v)]"
  by (induction body) auto

lemma update_page_body_distinct:
  "distinct (map fst entries) \<Longrightarrow> fst ` set body \<inter> fst ` set entries = {} \<Longrightarrow>
   update_page_body body entries = body @ [(k, JStr s). (k, Some s) \<leftarrow> entries]"
proof (induction entries arbitrary: body)
  case Nil
  then show ?case by simp
next
  case (Cons e entries)
  obtain k v where e: "e = (k, v)" by (cases e)
  show ?case
  proof (cases v)
    case None
    then show ?thesis using Cons e by auto
  next
    case (Some s)
    have fresh: "k \<notin> fst ` set body" using Cons.prems e by auto
    have "fst ` set (body @ [(k, JStr s)]) \<inter> fst ` set entries = {}"
      using Cons.prems e by (auto simp: image_iff)
    then have "update_page_body (body @ [(k, JStr s)]) entries =
                 (body @ [(k, JStr s)]) @ [(k, JStr s). (k, Some s) \<leftarrow> entries]"
      using Cons.IH Cons.prems by simp
    then show ?thesis using e Some fresh by (simp add: set_key_fresh)
  qed
qed

lemma update_page_trace:
  "update_page_body [] entries \<noteq> [] \<Longrightarrow> API_KEY pf \<noteq> [] \<Longrightarrow>
   snd (update_page pf slug entries tr) =
     tr @ [Fetch (apiRequest_fetch pf ''PUT'' (''/pages/'' @ encodeURIComponent pf slug)
                    (RecordBody (update_page_body [] entries)))]"
  by (simp add: update_page_def Let_def case_prod_unfold apiRequest_with_key)

lemma apiRequest_reply:
  assumes "Fetch req \<in> set (snd (apiRequest pf m p b []))"
    and "fetch_json pf req = Inr body"
  shows "fst (apiRequest pf m p b []) = apiRequest_envelope pf body"
proof (cases "API_KEY pf = []")
  case True
  then show ?thesis using assms(1) by (simp add: apiRequest_no_key)
next
  case False
  then show ?thesis using assms by (simp add: apiRequest_with_key)
qed

lemma list_pages_reply:
  assumes "Fetch req \<in> set (snd (list_pages pf status []))"
    and "fetch_json pf req = Inr body"
  shows "fst (list_pages pf status []) = and_then (apiRequest_envelope pf body) (list_pages_result pf)"
  using assms apiRequest_reply[of req pf "''GET''" _ NoBody body]
  by (simp add: list_pages_def Let_def case_prod_unfold)

lemma get_leads_reply:
  assumes "Fetch req \<in> set (snd (get_leads pf slug status limit []))"
    and "fetch_json pf req = Inr body"
  shows "fst (get_leads pf slug status limit []) =
           and_then (apiRequest_envelope pf body) (get_leads_result pf slug)"
  using assms apiRequest_reply[of req pf "''GET''" _ NoBody body]
  by (simp add: get_leads_def Let_def case_prod_unfold)

lemma mapE_defined:
  "\<forall>x \<in> set xs. \<exists>y. f x = Inr y \<Longrightarrow>
   \<exists>ys. mapE f xs = Inr ys \<and> length ys = length xs \<and> (\<forall>i < length xs. f (xs ! i) = Inr (ys ! i))"
proof (induction xs)
  case Nil
  then show ?case by simp
next
  case (Cons x xs)
  then obtain y ys where y: "f x = Inr y" and ys: "mapE f xs = Inr ys" "length ys = length xs"
    "\<forall>i < length xs. f (xs ! i) = Inr (ys ! i)"
    by auto
  have "\<forall>i < length (x # xs). f ((x # xs) ! i) = Inr ((y # ys) ! i)"
    using y ys(3) by (auto simp: nth_Cons split: nat.splits)
  then show ?case using y ys by auto
qed

lemma get_prop_error: "get_prop v k = Inl e \<Longrightarrow> e = TypeError \<and> nullish v"
  by (cases v) auto

lemma get_prop_nullish: "nullish v \<Longrightarrow> get_prop v k = Inl TypeError"
  by (cases v) auto

lemma get_prop_defined: "\<not> nullish v \<Longrightarrow> \<exists>x. get_prop v k = Inr x"
  by (cases v) auto

lemma to_string_error:
  "(to_string pf v = Inl e \<longrightarrow> e = TypeError)"
  "(to_strings pf vs = Inl e \<longrightarrow> e = TypeError)"
  by (induction pf v and pf vs rule: to_string_to_strings.induct)
     (auto split: sum.splits if_splits)

lemma to_string_cases:
  "to_string pf v = Inl TypeError \<or> (\<exists>s. to_string pf v = Inr s)"
  using to_string_error(1)[of pf v] by (cases "to_string pf v") auto

lemma optional_string_cases:
  "optional_string x \<Longrightarrow> x = None \<or> (\<exists>s. x = Some (JStr s))"
  by (cases x rule: optional_string.cases) auto

lemma required_string_cases: "required_string x \<Longrightarrow> \<exists>s. x = Some (JStr s)"
  by (cases x rule: required_string.cases) auto

lemma optional_field_text:
  assumes "optional_string (map_of kvs k)"
  shows "\<exists>v t. get_prop (JObj kvs) k = Inr v \<and>
           (if truthy v then to_string pf v else Inr []) = Inr t"
  using optional_string_cases[OF assms] by auto

lemma required_field_text:
  assumes "required_string (map_of kvs k)"
  shows "\<exists>s. get_prop (JObj kvs) k = Inr (JStr s)"
  using required_string_cases[OF assms] by auto

lemma lead_line_defined:
  assumes "is_Lead l"
  shows "\<exists>s. lead_line pf l = Inr s"
proof -
  obtain kvs where l: "l = JObj kvs" using assms by (cases l) auto
  have f: "optional_string (map_of kvs ''name'')" "optional_string (map_of kvs ''phone'')"
    "optional_string (map_of kvs ''email'')" "optional_string (map_of kvs ''message'')"
    "required_string (map_of kvs ''status'')" "required_string (map_of kvs ''createdAt'')"
    using assms l by simp_all
  obtain n nt where n: "get_prop l ''name'' = Inr n"
      "(if truthy n then to_string pf n else Inr []) = Inr nt"
    using optional_field_text[OF f(1)] l by blast
  obtain p pt where p: "get_prop l ''phone'' = Inr p"
      "(if truthy p then to_string pf p else Inr []) = Inr pt"
    using optional_field_text[OF f(2)] l by blast
  obtain e et where e: "get_prop l ''email'' = Inr e"
      "(if truthy e then to_string pf e else Inr []) = Inr et"
    using optional_field_text[OF f(3)] l by blast
  obtain m mt where m: "get_prop l ''message'' = Inr m"
      "(if truthy m then to_string pf m else Inr []) = Inr mt"
    using optional_field_text[OF f(4)] l by blast
  obtain st where st: "get_prop l ''status'' = Inr (JStr st)"
    using required_field_text[OF f(5)] l by blast
  obtain ca where ca: "get_prop l ''createdAt'' = Inr (JStr ca)"
    using required_field_text[OF f(6)] l by blast
  show ?thesis
    unfolding lead_line_def by (simp only: n p e m st ca and_then_Inr to_string.simps date_text_def) simp
qed

section \<open>The claims\<close>

text \<open>
  C1. The payload of \<^verbatim>\<open>deploy_page\<close> is chosen by the assets alone. With \<^verbatim>\<open>assets\<close> absent or
  empty the call makes no call on the archive library, and the one file of the form it
  sends is the HTML text itself, of type \<^verbatim>\<open>text/html\<close>, named \<^verbatim>\<open>index.html\<close>. With one asset or
  more it calls the constructor, \<^verbatim>\<open>addFile\<close> for the document and for every asset, and
  \<^verbatim>\<open>toBuffer\<close>, and the one file of the form it sends is that archive, of type
  \<^verbatim>\<open>application/zip\<close>, named \<^verbatim>\<open>site.zip\<close>. The form goes out when the API key is set; the calls
  on the archive library are the same with and without a key.
\<close>

theorem deploy_page_payload_choice:
  "(assets = None \<or> assets = Some [] \<longrightarrow>
      archive_calls (snd (deploy_page pf html assets slug loc whatsapp [])) = [] \<and>
      (API_KEY pf \<noteq> [] \<longrightarrow>
         sent_files (requests (snd (deploy_page pf html assets slug loc whatsapp []))) =
           [(Blob [StringPart html] ''text/html'', ''index.html'')]))
   \<and> (\<forall>as. assets = Some as \<and> as \<noteq> [] \<longrightarrow>
      archive_calls (snd (deploy_page pf html assets slug loc whatsapp [])) =
        New_AdmZip # AddFile ''index.html'' (Utf8 html) #
        map (\<lambda>a. AddFile (filename a) (Base64 (content a))) as @ [ToBuffer] \<and>
      (API_KEY pf \<noteq> [] \<longrightarrow>
         sent_files (requests (snd (deploy_page pf html assets slug loc whatsapp []))) =
           [(Blob [ZipBuffer ((''index.html'', Utf8 html) #
                              map (\<lambda>a. (filename a, Base64 (content a))) as)]
               ''application/zip'', ''site.zip'')]))"
proof (intro conjI impI allI)
  assume "assets = None \<or> assets = Some []"
  then have b: "bundle_calls html assets = []"
    by (auto simp: bundle_calls_def)
  show "archive_calls (snd (deploy_page pf html assets slug loc whatsapp [])) = []"
    by (simp add: deploy_page_trace b)
next
  assume a: "assets = None \<or> assets = Some []" and k: "API_KEY pf \<noteq> []"
  show "sent_files (requests (snd (deploy_page pf html assets slug loc whatsapp []))) =
           [(Blob [StringPart html] ''text/html'', ''index.html'')]"
    using a k by (auto simp: deploy_page_trace deploy_page_form_eq)
next
  fix as assume a: "assets = Some as \<and> as \<noteq> []"
  then obtain x xs where as: "as = x # xs" by (cases as) auto
  show "archive_calls (snd (deploy_page pf html assets slug loc whatsapp [])) =
        New_AdmZip # AddFile ''index.html'' (Utf8 html) #
        map (\<lambda>a. AddFile (filename a) (Base64 (content a))) as @ [ToBuffer]"
    using a as by (simp add: deploy_page_trace bundle_calls_def)
next
  fix as assume a: "assets = Some as \<and> as \<noteq> []" and k: "API_KEY pf \<noteq> []"
  then obtain x xs where as: "as = x # xs" by (cases as) auto
  show "sent_files (requests (snd (deploy_page pf html assets slug loc whatsapp []))) =
           [(Blob [ZipBuffer ((''index.html'', Utf8 html) #
                              map (\<lambda>a. (filename a, Base64 (content a))) as)]
               ''application/zip'', ''site.zip'')]"
    using a as k by (simp add: deploy_page_trace deploy_page_form_eq)
qed

theorem deploy_page_payload_choice_witness:
  "archive_calls (snd (deploy_page (fixed_reply (Some ''p4u_key'') JNull) ''<html></html>'' None
       (Some ''my-bakery'') None None [])) = []
   \<and> sent_files (requests (snd (deploy_page (fixed_reply (Some ''p4u_key'') JNull)
       ''<html></html>'' None (Some ''my-bakery'') None None []))) =
       [(Blob [StringPart ''<html></html>''] ''text/html'', ''index.html'')]
   \<and> archive_calls (snd (deploy_page (fixed_reply (Some ''p4u_key'') JNull) ''<html></html>''
       (Some [\<lparr>filename = ''images/logo.png'', content = ''iVBORw==''\<rparr>]) None None None [])) =
       [New_AdmZip, AddFile ''index.html'' (Utf8 ''<html></html>''),
        AddFile ''images/logo.png'' (Base64 ''iVBORw==''), ToBuffer]
   \<and> sent_files (requests (snd (deploy_page (fixed_reply (Some ''p4u_key'') JNull)
       ''<html></html>''
       (Some [\<lparr>filename = ''images/logo.png'', content = ''iVBORw==''\<rparr>]) None None None []))) =
       [(Blob [ZipBuffer [(''index.html'', Utf8 ''<html></html>''),
                          (''images/logo.png'', Base64 ''iVBORw=='')]]
           ''application/zip'', ''site.zip'')]"
proof -
  have k: "API_KEY (fixed_reply (Some ''p4u_key'') JNull) \<noteq> []"
    by (simp add: API_KEY_def fixed_reply_def)
  show ?thesis
    using k
      deploy_page_payload_choice[where assets = None and pf = "fixed_reply (Some ''p4u_key'') JNull"
        and html = "''<html></html>''" and slug = "Some ''my-bakery''" and loc = None
        and whatsapp = None]
      deploy_page_payload_choice[where
        assets = "Some [\<lparr>filename = ''images/logo.png'', content = ''iVBORw==''\<rparr>]"
        and pf = "fixed_reply (Some ''p4u_key'') JNull"
        and html = "''<html></html>''" and slug = None and loc = None and whatsapp = None]
    by simp
qed




text \<open>
  C3. An \<^verbatim>\<open>update_page\<close> call in which every metadata field is \<^verbatim>\<open>undefined\<close> returns the
  text "No fields to update." and leaves the trace as it was: it makes no network call
  (and no other call outside the process), whatever the runtime and the credential.
\<close>

theorem update_page_nothing_to_update:
  assumes "\<forall>(k, v) \<in> set entries. v = None"
  shows "update_page pf slug entries tr = (Inr (textResult ''No fields to update.''), tr)"
proof -
  have "update_page_body [] entries = []"
    using assms by (simp add: update_page_body_Nil)
  then show ?thesis by (simp add: update_page_def)
qed

theorem update_page_nothing_to_update_witness:
  "update_page (fixed_reply (Some ''p4u_key'') JNull) ''my-bakery''
     [(''phone'', None), (''email'', None)] [] =
   (Inr [TextContent ''No fields to update.''], [])"
  using update_page_nothing_to_update
    [of "[(''phone'', None), (''email'', None)]" "fixed_reply (Some ''p4u_key'') JNull"
        "''my-bakery''" "[]"]
  by (simp add: textResult_def)

text \<open>
  C4. Whatever the tool, when the request it sent is answered by a body of the failure
  arm \<^verbatim>\<open>{ success: false, error: { code, message } }\<close>, the call ends with the error
  \<^verbatim>\<open>Error(`${code}: ${message}`)\<close>: the message holds the code and the message of the envelope,
  the outcome is an error and not a text result, and it is the same whatever else the body
  carries (a \<^verbatim>\<open>data\<close> field is not read).
\<close>

theorem failure_envelope_is_raised:
  assumes "Fetch req \<in> set (snd (call_tool pf c []))"
    and "fetch_json pf req = Inr body"
    and "as_ApiError body = Some (code, message)"
  shows "fst (call_tool pf c []) = Inl (Error (code @ '': '' @ message))"
proof -
  from call_tool_shape[of c pf "[]"] assms(1)
  obtain m p b pre post where pre: "requests pre = []"
    and eq: "call_tool pf c [] =
          (and_then (fst (apiRequest pf m p b ([] @ pre))) post,
           snd (apiRequest pf m p b ([] @ pre)))"
    by auto
  have key: "API_KEY pf \<noteq> []"
  proof
    assume "API_KEY pf = []"
    then have "snd (call_tool pf c []) = pre"
      using eq by (simp add: apiRequest_no_key)
    then show False using assms(1) pre by (simp add: Fetch_in_requests)
  qed
  have tr: "snd (call_tool pf c []) = pre @ [Fetch (apiRequest_fetch pf m p b)]"
    using eq key by (simp add: apiRequest_with_key)
  then have "req = apiRequest_fetch pf m p b"
    using assms(1) pre by (simp add: Fetch_in_requests)
  then have "fst (apiRequest pf m p b ([] @ pre)) = Inl (Error (code @ '': '' @ message))"
    using key assms(2,3) by (simp add: apiRequest_with_key envelope_failure)
  then show ?thesis using eq by simp
qed

theorem failure_envelope_is_raised_witness:
  "fst (call_tool
         (fixed_reply (Some ''p4u_key'')
           (JObj [(''success'', JBool False),
                  (''error'', JObj [(''code'', JStr ''NOT_FOUND''), (''message'', JStr ''No such page'')]),
                  (''data'', JArr [JNull])]))
         (Get_leads ''my-bakery'' None None) []) =
   Inl (Error ''NOT_FOUND: No such page'')"
proof -
  let ?body = "JObj [(''success'', JBool False),
                  (''error'', JObj [(''code'', JStr ''NOT_FOUND''), (''message'', JStr ''No such page'')]),
                  (''data'', JArr [JNull])]"
  let ?pf = "fixed_reply (Some ''p4u_key'') ?body"
  let ?req = "apiRequest_fetch ?pf ''GET'' (get_leads_path ?pf ''my-bakery'' None None) NoBody"
  have h1: "Fetch ?req \<in> set (snd (call_tool ?pf (Get_leads ''my-bakery'' None None) []))"
    by (simp add: get_leads_def apiRequest_def API_KEY_def fixed_reply_def case_prod_unfold Let_def)
  have h2: "fetch_json ?pf ?req = Inr ?body"
    by (simp add: fixed_reply_def)
  have h3: "as_ApiError ?body = Some (''NOT_FOUND'', ''No such page'')"
    by simp
  show ?thesis
    using failure_envelope_is_raised[OF h1 h2 h3] by simp
qed

text \<open>
  C5, as the code has it. \<^verbatim>\<open>apiRequest\<close> does not check the shape of the reply, and no
  error of its own stands for a malformed one. For a reply of neither arm: a \<^verbatim>\<open>null\<close> reply
  ends the call with the \<^verbatim>\<open>TypeError\<close> of the property read; a reply whose \<^verbatim>\<open>success\<close> is
  truthy is returned as a success, unchanged; a reply whose \<^verbatim>\<open>success\<close> is falsy ends the
  call with a \<^verbatim>\<open>TypeError\<close> when its \<^verbatim>\<open>error\<close> is \<^verbatim>\<open>null\<close> or missing, and otherwise with the
  \<^verbatim>\<open>Error\<close> whose message is the text of \<^verbatim>\<open>error.code\<close>, a colon and a space, and the text of
  \<^verbatim>\<open>error.message\<close>, whatever these two hold (a \<^verbatim>\<open>TypeError\<close> when one of them has no text).
\<close>

theorem malformed_envelope_outcome:
  assumes "Fetch req \<in> set (snd (apiRequest pf m p b []))"
    and "fetch_json pf req = Inr body"
    and "as_ApiSuccess body = None"
    and "as_ApiError body = None"
  shows "(nullish body \<longrightarrow> fst (apiRequest pf m p b []) = Inl TypeError)
       \<and> (\<forall>s. get_prop body ''success'' = Inr s \<and> truthy s \<longrightarrow>
            fst (apiRequest pf m p b []) = Inr body)
       \<and> (\<forall>s err. get_prop body ''success'' = Inr s \<and> \<not> truthy s \<and>
                   get_prop body ''error'' = Inr err \<longrightarrow>
            (nullish err \<longrightarrow> fst (apiRequest pf m p b []) = Inl TypeError) \<and>
            (\<forall>c msg. get_prop err ''code'' = Inr c \<and> get_prop err ''message'' = Inr msg \<longrightarrow>
               (\<forall>ctext mtext. to_string pf c = Inr ctext \<and> to_string pf msg = Inr mtext \<longrightarrow>
                  fst (apiRequest pf m p b []) = Inl (Error (ctext @ '': '' @ mtext))) \<and>
               (to_string pf c = Inl TypeError \<or> to_string pf msg = Inl TypeError \<longrightarrow>
                  fst (apiRequest pf m p b []) = Inl TypeError)))"
proof -
  have r: "fst (apiRequest pf m p b []) = apiRequest_envelope pf body"
    using apiRequest_reply[OF assms(1,2)] .
  show ?thesis
  proof (intro conjI allI impI)
    assume "nullish body"
    then show "fst (apiRequest pf m p b []) = Inl TypeError"
      by (simp add: r apiRequest_envelope_def get_prop_nullish)
  next
    fix s assume "get_prop body ''success'' = Inr s \<and> truthy s"
    then show "fst (apiRequest pf m p b []) = Inr body"
      by (simp add: r apiRequest_envelope_def)
  next
    fix s err
    assume a: "get_prop body ''success'' = Inr s \<and> \<not> truthy s \<and> get_prop body ''error'' = Inr err"
      and n: "nullish err"
    show "fst (apiRequest pf m p b []) = Inl TypeError"
      using a n by (simp add: r apiRequest_envelope_def get_prop_nullish)
  next
    fix s err c msg ctext mtext
    assume a: "get_prop body ''success'' = Inr s \<and> \<not> truthy s \<and> get_prop body ''error'' = Inr err"
      and c: "get_prop err ''code'' = Inr c \<and> get_prop err ''message'' = Inr msg"
      and t: "to_string pf c = Inr ctext \<and> to_string pf msg = Inr mtext"
    show "fst (apiRequest pf m p b []) = Inl (Error (ctext @ '': '' @ mtext))"
      using a c t by (simp add: r apiRequest_envelope_def)
  next
    fix s err c msg
    assume a: "get_prop body ''success'' = Inr s \<and> \<not> truthy s \<and> get_prop body ''error'' = Inr err"
      and c: "get_prop err ''code'' = Inr c \<and> get_prop err ''message'' = Inr msg"
      and t: "to_string pf c = Inl TypeError \<or> to_string pf msg = Inl TypeError"
    show "fst (apiRequest pf m p b []) = Inl TypeError"
      using a c t to_string_cases[of pf c]
      by (auto simp: r apiRequest_envelope_def)
  qed
qed

theorem malformed_envelope_outcome_witness:
  "fst (apiRequest (fixed_reply (Some ''p4u_key'') (JObj [(''success'', JNum 1), (''data'', JArr [])]))
         ''GET'' ''/pages'' NoBody []) =
     Inr (JObj [(''success'', JNum 1), (''data'', JArr [])])
   \<and> fst (apiRequest (fixed_reply (Some ''p4u_key'') (JObj [(''data'', JArr [])]))
         ''GET'' ''/pages'' NoBody []) = Inl TypeError
   \<and> fst (apiRequest (fixed_reply (Some ''p4u_key'')
            (JObj [(''success'', JBool False), (''error'', JObj [(''code'', JNum 404)])]))
         ''GET'' ''/pages'' NoBody []) = Inl (Error ''404: undefined'')
   \<and> fst (apiRequest (fixed_reply (Some ''p4u_key'')
            (JObj [(''success'', JBool False),
                   (''error'', JObj [(''code'', JObj [(''toString'', JNull)])])]))
         ''GET'' ''/pages'' NoBody []) = Inl TypeError"
proof -
  let ?b1 = "JObj [(''success'', JNum 1), (''data'', JArr [])]"
  let ?b2 = "JObj [(''data'', JArr [])]"
  let ?b3 = "JObj [(''success'', JBool False), (''error'', JObj [(''code'', JNum 404)])]"
  let ?b4 = "JObj [(''success'', JBool False),
                   (''error'', JObj [(''code'', JObj [(''toString'', JNull)])])]"
  have k: "API_KEY (fixed_reply (Some ''p4u_key'') body) \<noteq> []" for body
    by (simp add: API_KEY_def fixed_reply_def)
  have a: "Fetch (apiRequest_fetch (fixed_reply (Some ''p4u_key'') body) ''GET'' ''/pages'' NoBody)
              \<in> set (snd (apiRequest (fixed_reply (Some ''p4u_key'') body) ''GET'' ''/pages'' NoBody []))"
    for body
    using k[of body] by (simp add: apiRequest_with_key)
  have f: "fetch_json (fixed_reply (Some ''p4u_key'') body)
             (apiRequest_fetch (fixed_reply (Some ''p4u_key'') body) ''GET'' ''/pages'' NoBody) = Inr body"
    for body
    by (simp add: fixed_reply_def)
  have c1: "as_ApiSuccess ?b1 = None" "as_ApiError ?b1 = None"
    and c2: "as_ApiSuccess ?b2 = None" "as_ApiError ?b2 = None"
    and c3: "as_ApiSuccess ?b3 = None" "as_ApiError ?b3 = None"
    and c4: "as_ApiSuccess ?b4 = None" "as_ApiError ?b4 = None"
    by simp_all
  note t1 = malformed_envelope_outcome[OF a f c1]
  note t2 = malformed_envelope_outcome[OF a f c2]
  note t3 = malformed_envelope_outcome[OF a f c3]
  note t4 = malformed_envelope_outcome[OF a f c4]
  have n5: "number_to_string pf 404 = ''404''" for pf
    by (simp add: number_to_string_def signed_decimal_def decimal.simps digit_def)
  have 1: "fst (apiRequest (fixed_reply (Some ''p4u_key'') ?b1) ''GET'' ''/pages'' NoBody []) = Inr ?b1"
    using t1 by simp
  have 2: "fst (apiRequest (fixed_reply (Some ''p4u_key'') ?b2) ''GET'' ''/pages'' NoBody []) =
             Inl TypeError"
    using t2 by simp
  have 3: "fst (apiRequest (fixed_reply (Some ''p4u_key'') ?b3) ''GET'' ''/pages'' NoBody []) =
             Inl (Error ''404: undefined'')"
    using t3 by (simp add: n5)
  have 4: "fst (apiRequest (fixed_reply (Some ''p4u_key'') ?b4) ''GET'' ''/pages'' NoBody []) =
             Inl TypeError"
    using t4 by simp
  show ?thesis using 1 2 3 4 by simp
qed

text \<open>
  C5 as stated fails: the reply \<^verbatim>\<open>{"success": 1, "data": []}\<close> is of neither arm, and
  \<^verbatim>\<open>list_pages\<close> treats it as a success and answers "No pages found."; the reply
  \<^verbatim>\<open>{"success": false, "error": {}}\<close> is of neither arm, and it is treated as the failure
  arm, with the message "undefined: undefined".
\<close>

theorem malformed_envelope_counterexample:
  "as_ApiSuccess (JObj [(''success'', JNum 1), (''data'', JArr [])]) = None
   \<and> as_ApiError (JObj [(''success'', JNum 1), (''data'', JArr [])]) = None
   \<and> call_tool (fixed_reply (Some ''p4u_key'') (JObj [(''success'', JNum 1), (''data'', JArr [])]))
        (List_pages None) [] =
      (Inr [TextContent ''No pages found.''],
       [Fetch \<lparr>req_method = ''GET'', req_url = ''https://page4u.ai/api/v1/pages'',
               req_headers = [(''Authorization'', ''Bearer p4u_key''), (''X-Page4U-Client'', ''mcp'')],
               req_body = BodyUndefined\<rparr>])
   \<and> as_ApiSuccess (JObj [(''success'', JBool False), (''error'', JObj [])]) = None
   \<and> as_ApiError (JObj [(''success'', JBool False), (''error'', JObj [])]) = None
   \<and> fst (call_tool (fixed_reply (Some ''p4u_key'') (JObj [(''success'', JBool False), (''error'', JObj [])]))
        (List_pages None) []) = Inl (Error ''undefined: undefined'')"
  by (simp add: list_pages_def apiRequest_def apiRequest_fetch_def apiRequest_envelope_def
      API_KEY_def BASE_URL_def fixed_reply_def list_pages_result_def textResult_def)

text \<open>
  C6, as the code has it. With no API key (the variable unset, or set to the empty string),
  every tool call that reaches \<^verbatim>\<open>apiRequest\<close> ends with the error whose message names
  \<^verbatim>\<open>PAGE4U_API_KEY\<close> and the page where a key is issued, and adds no network call to the trace.
  Every call reaches \<^verbatim>\<open>apiRequest\<close> but an \<^verbatim>\<open>update_page\<close> with no field given, which
  returns before the key is looked at.
\<close>

theorem missing_key_fails_before_network:
  assumes "API_KEY pf = []"
    and "\<forall>slug entries. c = Update_page slug entries \<longrightarrow> (\<exists>k v. (k, Some v) \<in> set entries)"
  shows "fst (call_tool pf c tr) =
           Inl (Error (''PAGE4U_API_KEY environment variable is not set. '' @
                       ''Get your key at https://page4u.ai/dashboard/settings''))
         \<and> requests (snd (call_tool pf c tr)) = requests tr"
proof -
  have "\<not> (\<exists>slug entries. c = Update_page slug entries \<and> update_page_body [] entries = [])"
    using assms(2) by (fastforce simp: update_page_body_Nil)
  with call_tool_shape[of c pf tr]
  obtain m p b pre post where pre: "requests pre = []"
    and eq: "call_tool pf c tr =
          (and_then (fst (apiRequest pf m p b (tr @ pre))) post,
           snd (apiRequest pf m p b (tr @ pre)))"
    by auto
  show ?thesis using eq pre assms(1) by (simp add: apiRequest_no_key)
qed

theorem missing_key_fails_before_network_witness:
  "fst (call_tool (fixed_reply None JNull) (Update_page ''my-bakery'' [(''phone'', Some ''050-1234567'')]) []) =
     Inl (Error ''PAGE4U_API_KEY environment variable is not set. Get your key at https://page4u.ai/dashboard/settings'')
   \<and> requests (snd (call_tool (fixed_reply None JNull) (Update_page ''my-bakery'' [(''phone'', Some ''050-1234567'')]) [])) = []"
proof -
  have h1: "API_KEY (fixed_reply None JNull) = []"
    by (simp add: API_KEY_def fixed_reply_def)
  have h2: "\<forall>slug entries. Update_page ''my-bakery'' [(''phone'', Some ''050-1234567'')] = Update_page slug entries \<longrightarrow>
              (\<exists>k v. (k, Some v) \<in> set entries)"
    by auto
  show ?thesis
    using missing_key_fails_before_network[OF h1 h2, of "[]"] by simp
qed

text \<open>
  C6 as stated ("for every operation") fails on that call: with the key unset,
  \<^verbatim>\<open>update_page({slug: "my-bakery"})\<close> succeeds with "No fields to update.".
\<close>

theorem missing_key_update_page_counterexample:
  "PAGE4U_API_KEY (fixed_reply None JNull) = None \<and>
   call_tool (fixed_reply None JNull) (Update_page ''my-bakery'' []) [] =
     (Inr [TextContent ''No fields to update.''], [])"
  by (simp add: fixed_reply_def update_page_def textResult_def)

text \<open>
  C7. With the API key set and one field or more given, \<^verbatim>\<open>update_page\<close> sends one request,
  and its body is the JSON text of exactly the entries whose value is not \<^verbatim>\<open>undefined\<close>, each
  with its value: a field left out is not a key of the body, a field given is, and a field
  given as the empty string is sent as the empty string. The keys of \<^verbatim>\<open>Object.entries\<close> are
  distinct.
\<close>

theorem update_page_sends_provided_fields:
  assumes "API_KEY pf \<noteq> []"
    and "distinct (map fst entries)"
    and "\<exists>k s. (k, Some s) \<in> set entries"
  shows "map req_body (requests (snd (update_page pf slug entries []))) =
           [JsonString [(k, JStr s). (k, Some s) \<leftarrow> entries]]
         \<and> (\<forall>k. (k, None) \<in> set entries \<longrightarrow>
               k \<notin> fst ` set [(k, JStr s). (k, Some s) \<leftarrow> entries])
         \<and> (\<forall>k s. (k, Some s) \<in> set entries \<longrightarrow>
               (k, JStr s) \<in> set [(k, JStr s). (k, Some s) \<leftarrow> entries])
         \<and> (\<forall>k. (k, Some []) \<in> set entries \<longrightarrow>
               map_of [(k, JStr s). (k, Some s) \<leftarrow> entries] k = Some (JStr []))"
proof -
  have body: "update_page_body [] entries = [(k, JStr s). (k, Some s) \<leftarrow> entries]"
    using update_page_body_distinct[of entries "[]"] assms(2) by simp
  have ne: "update_page_body [] entries \<noteq> []"
    using assms(3) by (fastforce simp: update_page_body_Nil)
  have 1: "map req_body (requests (snd (update_page pf slug entries []))) =
           [JsonString [(k, JStr s). (k, Some s) \<leftarrow> entries]]"
    using update_page_trace[OF ne assms(1), of slug "[]"] body by simp
  have 2: "k \<notin> fst ` set [(k, JStr s). (k, Some s) \<leftarrow> entries]" if "(k, None) \<in> set entries" for k
  proof
    assume "k \<in> fst ` set [(k, JStr s). (k, Some s) \<leftarrow> entries]"
    then obtain s where "(k, Some s) \<in> set entries" by (auto split: option.splits)
    with that assms(2) show False
      by (meson distinct_map eq_key_imp_eq_value option.distinct(1))
  qed
  have 3: "(k, JStr s) \<in> set [(k, JStr s). (k, Some s) \<leftarrow> entries]"
    if "(k, Some s) \<in> set entries" for k s
    using that by force
  have d: "distinct (map fst [(k, JStr s). (k, Some s) \<leftarrow> entries])"
    using assms(2) by (induction entries) (auto split: option.splits simp: image_iff)
  have 4: "map_of [(k, JStr s). (k, Some s) \<leftarrow> entries] k = Some (JStr [])"
    if "(k, Some []) \<in> set entries" for k
    using 3[OF that] d by simp
  show ?thesis using 1 2 3 4 by blast
qed

theorem update_page_sends_provided_fields_witness:
  "map req_body (requests (snd (update_page (fixed_reply (Some ''p4u_key'') JNull) ''my-bakery''
      [(''businessName'', None), (''headline'', Some []), (''phone'', Some ''050-1234567'')] []))) =
   [JsonString [(''headline'', JStr []), (''phone'', JStr ''050-1234567'')]]
   \<and> ''businessName'' \<notin> fst ` set [(''headline'', JStr []), (''phone'', JStr ''050-1234567'')]
   \<and> map_of [(''headline'', JStr []), (''phone'', JStr ''050-1234567'')] ''headline'' =
       Some (JStr [])"
proof -
  let ?E = "[(''businessName'', None), (''headline'', Some []), (''phone'', Some ''050-1234567'')]"
  have k: "API_KEY (fixed_reply (Some ''p4u_key'') JNull) \<noteq> []"
    by (simp add: API_KEY_def fixed_reply_def)
  have d: "distinct (map fst ?E)"
    by simp
  have e: "\<exists>k s. (k, Some s) \<in> set ?E"
    by auto
  note t = update_page_sends_provided_fields[OF k d e, of "''my-bakery''"]
  have n: "(''businessName'', None) \<in> set ?E" and h: "(''headline'', Some []) \<in> set ?E"
    by simp_all
  have 1: "map req_body (requests (snd (update_page (fixed_reply (Some ''p4u_key'') JNull)
             ''my-bakery'' ?E []))) = [JsonString [(k, JStr s). (k, Some s) \<leftarrow> ?E]]"
    using t by blast
  have 2: "''businessName'' \<notin> fst ` set [(k, JStr s). (k, Some s) \<leftarrow> ?E]"
    using t n by blast
  have 3: "map_of [(k, JStr s). (k, Some s) \<leftarrow> ?E] ''headline'' = Some (JStr [])"
    using t h by blast
  show ?thesis using 1 2 3 by simp
qed

text \<open>
  C8. When the reply to the request is a success envelope whose \<^verbatim>\<open>data\<close> is the empty array,
  \<^verbatim>\<open>list_pages\<close> returns the text "No pages found." and \<^verbatim>\<open>get_leads\<close> returns
  \<^verbatim>\<open>No leads found for "<slug>".\<close> with the slug of the call.
\<close>

theorem empty_data_texts:
  assumes "as_ApiSuccess body = Some (JArr [], tot)"
  shows "(\<forall>req. Fetch req \<in> set (snd (list_pages pf status [])) \<and> fetch_json pf req = Inr body \<longrightarrow>
            fst (list_pages pf status []) = Inr (textResult ''No pages found.''))
       \<and> (\<forall>req. Fetch req \<in> set (snd (get_leads pf slug lstatus limit [])) \<and>
                  fetch_json pf req = Inr body \<longrightarrow>
            fst (get_leads pf slug lstatus limit []) =
              Inr (textResult (''No leads found for \"'' @ slug @ ''\".'')))"
  using envelope_success[OF assms]
  by (auto simp: list_pages_reply get_leads_reply list_pages_result_def get_leads_result_def)

theorem empty_data_texts_witness:
  "fst (list_pages (fixed_reply (Some ''p4u_key'')
          (JObj [(''success'', JBool True), (''data'', JArr [])])) None []) =
     Inr [TextContent ''No pages found.'']
   \<and> fst (get_leads (fixed_reply (Some ''p4u_key'')
          (JObj [(''success'', JBool True), (''data'', JArr [])])) ''my-bakery'' None None []) =
     Inr [TextContent ''No leads found for \"my-bakery\".'']"
proof -
  let ?body = "JObj [(''success'', JBool True), (''data'', JArr [])]"
  let ?pf = "fixed_reply (Some ''p4u_key'') ?body"
  let ?r1 = "apiRequest_fetch ?pf ''GET'' ''/pages'' NoBody"
  let ?r2 = "apiRequest_fetch ?pf ''GET'' (get_leads_path ?pf ''my-bakery'' None None) NoBody"
  have s: "as_ApiSuccess ?body = Some (JArr [], None)" by simp
  have k: "API_KEY ?pf \<noteq> []" by (simp add: API_KEY_def fixed_reply_def)
  have f1: "Fetch ?r1 \<in> set (snd (list_pages ?pf None [])) \<and> fetch_json ?pf ?r1 = Inr ?body"
    using k by (simp add: list_pages_def apiRequest_with_key fixed_reply_def)
  have f2: "Fetch ?r2 \<in> set (snd (get_leads ?pf ''my-bakery'' None None [])) \<and>
            fetch_json ?pf ?r2 = Inr ?body"
    using k by (simp add: get_leads_def apiRequest_with_key fixed_reply_def)
  note t = empty_data_texts[OF s, of ?pf None "''my-bakery''" None None]
  have "fst (list_pages ?pf None []) = Inr (textResult ''No pages found.'')"
    using t f1 by blast
  moreover have "fst (get_leads ?pf ''my-bakery'' None None []) =
      Inr (textResult (''No leads found for \"'' @ ''my-bakery'' @ ''\".''))"
    using t f2 by blast
  ultimately show ?thesis by (simp add: textResult_def)
qed



text \<open>
  C10. In the handler of \<^verbatim>\<open>deploy_page\<close> an empty string for \<^verbatim>\<open>slug\<close>, \<^verbatim>\<open>locale\<close> or
  \<^verbatim>\<open>whatsapp\<close> gives the form, the request and the result of the call where that parameter is
  left out; in \<^verbatim>\<open>get_leads\<close> an empty \<^verbatim>\<open>status\<close> gives the path and the call of an omitted
  one, so the URL has no \<^verbatim>\<open>status\<close> parameter.
\<close>

theorem empty_optional_is_omitted:
  "deploy_page_form html assets (Some []) loc whatsapp tr =
     deploy_page_form html assets None loc whatsapp tr
   \<and> deploy_page_form html assets slug (Some []) whatsapp tr =
     deploy_page_form html assets slug None whatsapp tr
   \<and> deploy_page_form html assets slug loc (Some []) tr =
     deploy_page_form html assets slug loc None tr
   \<and> deploy_page pf html assets (Some []) loc whatsapp tr =
     deploy_page pf html assets None loc whatsapp tr
   \<and> deploy_page pf html assets slug (Some []) whatsapp tr =
     deploy_page pf html assets slug None whatsapp tr
   \<and> deploy_page pf html assets slug loc (Some []) tr =
     deploy_page pf html assets slug loc None tr
   \<and> get_leads_path pf lslug (Some []) limit = get_leads_path pf lslug None limit
   \<and> get_leads pf lslug (Some []) limit tr = get_leads pf lslug None limit tr"
  by (simp add: deploy_page_def deploy_page_form_eq append_if_given_def get_leads_def
      get_leads_path_def)

theorem empty_optional_is_omitted_witness:
  "deploy_page (fixed_reply (Some ''p4u_key'') JNull) ''<html></html>'' None (Some [])
     (Some ''en'') None [] =
   deploy_page (fixed_reply (Some ''p4u_key'') JNull) ''<html></html>'' None None
     (Some ''en'') None []
   \<and> fst (deploy_page_form ''<html></html>'' None (Some []) (Some ''en'') None []) =
     [(''file'', FormFile (Blob [StringPart ''<html></html>''] ''text/html'') ''index.html''),
      (''locale'', FormString ''en'')]
   \<and> get_leads_path (fixed_reply (Some ''p4u_key'') JNull) ''my-bakery'' (Some []) (Some 2) =
     ''/pages/my-bakery/leads?limit=2''"
proof -
  have p: "get_leads_path (fixed_reply (Some ''p4u_key'') JNull) ''my-bakery'' None (Some 2) =
     ''/pages/my-bakery/leads?limit=2''"
    by (simp add: get_leads_path_def fixed_reply_def URLSearchParams_toString_def
        number_to_string_def signed_decimal_def decimal.simps digit_def)
  have f: "fst (deploy_page_form ''<html></html>'' None None (Some ''en'') None []) =
     [(''file'', FormFile (Blob [StringPart ''<html></html>''] ''text/html'') ''index.html''),
      (''locale'', FormString ''en'')]"
    by (simp add: deploy_page_form_def append_if_given_def)
  show ?thesis
    using p f
      empty_optional_is_omitted[where pf = "fixed_reply (Some ''p4u_key'') JNull"
        and html = "''<html></html>''" and assets = None and slug = None and loc = "Some ''en''"
        and whatsapp = None and tr = "[]" and lslug = "''my-bakery''" and limit = "Some 2"]
    by simp
qed

end
